theory Spec2Isabelle
  imports Complex_Main "HOL-Library.Monad_Syntax"
begin

section \<open>JavaScript values\<close>

text \<open>
  The component handles values that come out of \<^verbatim>\<open>JSON.parse\<close> (the body of an HTTP
  response) and the \<^verbatim>\<open>undefined\<close> that a missing property reads as. Numbers are
  rationals: every finite double is one, and \<^verbatim>\<open>-0\<close>, which is falsy like \<^verbatim>\<open>0\<close>, is
  identified with it. An object is the list of its own properties in insertion order;
  \<^verbatim>\<open>JSON.parse\<close> never yields two entries with one key.
\<close>

datatype js =
    Undefined
  | Null
  | Bool bool
  | Num rat
  | Str string
  | Arr "js list"
  | Obj "(string \<times> js) list"

text \<open>\<^verbatim>\<open>!v\<close> is \<open>\<not> truthy v\<close>.\<close>

fun truthy :: "js \<Rightarrow> bool" where
  "truthy Undefined = False"
| "truthy Null = False"
| "truthy (Bool b) = b"
| "truthy (Num n) = (n \<noteq> 0)"
| "truthy (Str s) = (s \<noteq> [])"
| "truthy (Arr xs) = True"
| "truthy (Obj kvs) = True"

fun nullish :: "js \<Rightarrow> bool" where
  "nullish Undefined = True"
| "nullish Null = True"
| "nullish v = False"

text \<open>
  Reading a data property \<^verbatim>\<open>v.k\<close> of a value that is neither \<^verbatim>\<open>null\<close> nor
  \<^verbatim>\<open>undefined\<close>. Arrays and strings have \<^verbatim>\<open>length\<close>; no other key the component
  reads is inherited from a prototype, so everything else is an own property or
  \<^verbatim>\<open>undefined\<close>.
\<close>

fun property :: "js \<Rightarrow> string \<Rightarrow> js" where
  "property (Obj kvs) k = (case map_of kvs k of Some v \<Rightarrow> v | None \<Rightarrow> Undefined)"
| "property (Arr xs) k = (if k = ''length'' then Num (of_nat (length xs)) else Undefined)"
| "property (Str s) k = (if k = ''length'' then Num (of_nat (length s)) else Undefined)"
| "property v k = Undefined"

text \<open>\<^verbatim>\<open>v.k\<close>: a TypeError (\<open>None\<close>) on \<^verbatim>\<open>null\<close> and \<^verbatim>\<open>undefined\<close>.\<close>

definition getprop :: "js \<Rightarrow> string \<Rightarrow> js option" where
  "getprop v k = (if nullish v then None else Some (property v k))"

text \<open>\<^verbatim>\<open>v?.k\<close>: \<^verbatim>\<open>undefined\<close> on \<^verbatim>\<open>null\<close> and \<^verbatim>\<open>undefined\<close>.\<close>

definition opt_get :: "js \<Rightarrow> string \<Rightarrow> js" where
  "opt_get v k = (if nullish v then Undefined else property v k)"

section \<open>React elements\<close>

text \<open>
  What a JSX expression evaluates to: an element with its tag, \<^verbatim>\<open>className\<close>,
  \<^verbatim>\<open>key\<close> and children; a JavaScript value placed as a child (\<^verbatim>\<open>{expr}\<close>, and JSX
  text, which is a string child); an array of nodes (the result of \<^verbatim>\<open>.map\<close>); and
  the string that \<^verbatim>\<open>JSON.stringify\<close> returns for a value, kept symbolic.
\<close>

datatype node =
    Elem string "string option" "nat option" "node list"
  | Val js
  | Nodes "node list"
  | JSON_stringify js

abbreviation Text :: "string \<Rightarrow> node" where
  "Text s \<equiv> Val (Str s)"

abbreviation El :: "string \<Rightarrow> string \<Rightarrow> node list \<Rightarrow> node" where
  "El tag cls cs \<equiv> Elem tag (Some cls) None cs"

abbreviation Plain :: "string \<Rightarrow> node list \<Rightarrow> node" where
  "Plain tag cs \<equiv> Elem tag None None cs"

section \<open>Component state\<close>

text \<open>
  One entry of \<^verbatim>\<open>conversations\<close>: \<^verbatim>\<open>{type, content, timestamp}\<close>. The content of a
  user entry is the text typed (a string value); that of an assistant entry is the
  response body.
\<close>

record msg =
  msg_type :: string
  msg_content :: js
  msg_timestamp :: string

text \<open>The four \<^verbatim>\<open>useState\<close> cells of \<^verbatim>\<open>SolarForecast\<close>; \<open>error = None\<close> is \<^verbatim>\<open>null\<close>.\<close>

record state =
  message :: string
  conversations :: "msg list"
  loading :: bool
  error :: "node option"

definition initial :: state where
  "initial = \<lparr>message = [], conversations = [], loading = False, error = None\<rparr>"

text \<open>\<^verbatim>\<open>process.env.REACT_APP_API_URL || '/api'\<close>; the variable may be unset or empty.\<close>

definition apiUrl :: "string option \<Rightarrow> string" where
  "apiUrl env = (case env of None \<Rightarrow> ''/api'' | Some u \<Rightarrow> if u = [] then ''/api'' else u)"

text \<open>The arguments of \<^verbatim>\<open>axios.post\<close>.\<close>

record request =
  url :: string
  body :: js
  content_type :: string
  timeout :: nat

text \<open>
  How the awaited call ends: it resolves with \<^verbatim>\<open>res.data\<close>, or it rejects with an
  error whose \<^verbatim>\<open>response\<close> is \<^verbatim>\<open>undefined\<close> (\<open>None\<close>: network error, timeout) or
  carries the body \<^verbatim>\<open>response.data\<close> (a status outside 2xx).
\<close>

datatype outcome = Resolved js | Rejected "js option"

text \<open>
  The statements of the handlers, one constructor for each kind: the state setters
  (\<open>AppendConversation m\<close> is \<^verbatim>\<open>setConversations(prev => [...prev, m])\<close>), the network
  call and the two calls that touch neither.
\<close>

datatype effect =
    PreventDefault
  | SetLoading bool
  | SetError "node option"
  | AppendConversation msg
  | SetConversations "msg list"
  | SetMessage string
  | AxiosPost request
  | ConsoleError

fun apply_effect :: "state \<Rightarrow> effect \<Rightarrow> state" where
  "apply_effect st PreventDefault = st"
| "apply_effect st (SetLoading b) = st\<lparr>loading := b\<rparr>"
| "apply_effect st (SetError e) = st\<lparr>error := e\<rparr>"
| "apply_effect st (AppendConversation m) = st\<lparr>conversations := conversations st @ [m]\<rparr>"
| "apply_effect st (SetConversations ms) = st\<lparr>conversations := ms\<rparr>"
| "apply_effect st (SetMessage s) = st\<lparr>message := s\<rparr>"
| "apply_effect st (AxiosPost r) = st"
| "apply_effect st ConsoleError = st"

definition run :: "state \<Rightarrow> effect list \<Rightarrow> state" where
  "run st es = foldl apply_effect st es"

fun is_post :: "effect \<Rightarrow> bool" where
  "is_post (AxiosPost r) = True"
| "is_post e = False"

fun is_append :: "effect \<Rightarrow> bool" where
  "is_append (AppendConversation m) = True"
| "is_append e = False"

section \<open>handleSubmit\<close>

definition limit_message :: node where
  "limit_message =
     Text ''Maximum conversation limit reached. Please refresh to start a new conversation.''"

definition fallback_message :: js where
  "fallback_message = Str ''Failed to get data. Please try again.''"

definition limit_reached :: "state \<Rightarrow> bool" where
  "limit_reached st = (length (conversations st) \<ge> 10)"

definition userMessage :: "state \<Rightarrow> string \<Rightarrow> msg" where
  "userMessage st now = \<lparr>msg_type = ''user'', msg_content = Str (message st), msg_timestamp = now\<rparr>"

definition assistantMessage :: "js \<Rightarrow> string \<Rightarrow> msg" where
  "assistantMessage d now = \<lparr>msg_type = ''assistant'', msg_content = d, msg_timestamp = now\<rparr>"

definition chat_request :: "string option \<Rightarrow> state \<Rightarrow> request" where
  "chat_request env st =
     \<lparr>url = apiUrl env @ ''/chat/'',
      body = Obj [(''message'', Str (message st))],
      content_type = ''application/json'',
      timeout = 30000\<rparr>"

text \<open>
  The handler up to its \<^verbatim>\<open>await\<close>. \<open>now\<close> is what \<^verbatim>\<open>new Date().toLocaleTimeString()\<close>
  returns there; \<open>st\<close> is the state the handler closed over.
\<close>

definition handleSubmit_sync :: "string option \<Rightarrow> state \<Rightarrow> string \<Rightarrow> effect list" where
  "handleSubmit_sync env st now =
     (if limit_reached st then [PreventDefault, SetError (Some limit_message)]
      else [PreventDefault,
            SetLoading True,
            SetError None,
            AppendConversation (userMessage st now),
            SetMessage [],
            AxiosPost (chat_request env st)])"

text \<open>\<^verbatim>\<open>err.response?.data\<close>.\<close>

definition response_data :: "js option \<Rightarrow> js" where
  "response_data r = (case r of None \<Rightarrow> Undefined | Some d \<Rightarrow> d)"

text \<open>
  The value of \<^verbatim>\<open>errorMessage\<close> in the \<^verbatim>\<open>catch\<close> block. The element of the first
  branch reads \<^verbatim>\<open>err.response.data.error\<close> without \<^verbatim>\<open>?.\<close>, so it could throw
  (\<open>None\<close>).
\<close>

definition errorMessage :: "js option \<Rightarrow> node option" where
  "errorMessage r =
     (if truthy (opt_get (response_data r) ''details'')
      then do {
        d \<leftarrow> r;
        e \<leftarrow> getprop d ''error'';
        t \<leftarrow> getprop d ''details'';
        Some (Plain ''div'' [Plain ''strong'' [Val e], Plain ''br'' [], Val t])
      }
      else Some (Val (let e = opt_get (response_data r) ''error''
                      in if truthy e then e else fallback_message)))"

text \<open>
  The handler after the \<^verbatim>\<open>await\<close>: the rest of the \<^verbatim>\<open>try\<close> block, or the
  \<^verbatim>\<open>catch\<close> block, and then \<^verbatim>\<open>finally\<close>. It is empty when the limit check returned.
\<close>

definition handleSubmit_resume :: "outcome \<Rightarrow> string \<Rightarrow> effect list" where
  "handleSubmit_resume out now =
     (case out of
        Resolved d \<Rightarrow> [AppendConversation (assistantMessage d now)]
      | Rejected r \<Rightarrow>
          (case errorMessage r of
             Some m \<Rightarrow> [ConsoleError, SetError (Some m)]
           | None \<Rightarrow> [ConsoleError]))
     @ [SetLoading False]"

text \<open>
  One whole call: \<open>net\<close> is the network, answering the request; \<open>now\<close> and \<open>now'\<close> are
  the clock readings at the two entries.
\<close>

definition handleSubmit ::
  "string option \<Rightarrow> state \<Rightarrow> string \<Rightarrow> (request \<Rightarrow> outcome) \<Rightarrow> string \<Rightarrow> effect list" where
  "handleSubmit env st now net now' =
     (if limit_reached st then handleSubmit_sync env st now
      else handleSubmit_sync env st now
           @ handleSubmit_resume (net (chat_request env st)) now')"

text \<open>The \<^verbatim>\<open>onClick\<close> of "Start New Conversation".\<close>

definition reset :: "effect list" where
  "reset = [SetConversations [], SetError None]"

text \<open>\<^verbatim>\<open>5 - Math.floor(conversations.length/2)\<close>, in the header.\<close>

definition remainingQuestions :: "state \<Rightarrow> int" where
  "remainingQuestions st = 5 - \<lfloor>(of_nat (length (conversations st)) :: rat) / 2\<rfloor>"

definition user_turns :: "state \<Rightarrow> nat" where
  "user_turns st = length (filter (\<lambda>m. msg_type m = ''user'') (conversations st))"

text \<open>\<^verbatim>\<open>renderMessage\<close> shows every entry whose type is not \<^verbatim>\<open>'user'\<close> as the assistant's.\<close>

definition assistant_turns :: "state \<Rightarrow> nat" where
  "assistant_turns st = length (filter (\<lambda>m. msg_type m \<noteq> ''user'') (conversations st))"

section \<open>Rendering a response\<close>

text \<open>
  \<^verbatim>\<open>v.map((x, idx) => ...)\<close>. Only an array has a \<^verbatim>\<open>map\<close> that can be called: the
  read throws on \<^verbatim>\<open>null\<close> and \<^verbatim>\<open>undefined\<close>, and on any other value it yields
  \<^verbatim>\<open>undefined\<close> or a JSON value, and calling that throws. The callback runs on the
  elements from left to right with their indices; the first exception ends the call.
\<close>

fun map_idx :: "(js \<Rightarrow> nat \<Rightarrow> node option) \<Rightarrow> nat \<Rightarrow> js list \<Rightarrow> node list option" where
  "map_idx f i [] = Some []"
| "map_idx f i (x # xs) = do { y \<leftarrow> f x i; ys \<leftarrow> map_idx f (Suc i) xs; Some (y # ys) }"

definition js_map :: "js \<Rightarrow> (js \<Rightarrow> nat \<Rightarrow> node option) \<Rightarrow> node option" where
  "js_map v f = (case v of Arr xs \<Rightarrow> map_option Nodes (map_idx f 0 xs) | _ \<Rightarrow> None)"

definition hourly_card :: "js \<Rightarrow> nat \<Rightarrow> node option" where
  "hourly_card hour idx = do {
     h \<leftarrow> getprop hour ''hour'';
     c \<leftarrow> getprop hour ''conditions'';
     s \<leftarrow> getprop hour ''solar_potential'';
     Some (Elem ''div'' (Some ''col-md-4 mb-2'') (Some idx)
       [El ''div'' ''card h-100''
         [El ''div'' ''card-body''
           [El ''h6'' ''card-title'' [Val h],
            El ''p'' ''card-text''
              [Plain ''strong'' [Text ''Conditions:''], Text '' '', Val c, Plain ''br'' [],
               Plain ''strong'' [Text ''Solar Potential:''], Text '' '', Val s]]]])
   }"

definition renderHourlyForecast :: "js \<Rightarrow> node option" where
  "renderHourlyForecast content = do {
     hourly_forecast \<leftarrow> getprop content ''hourly_forecast'';
     cards \<leftarrow> js_map hourly_forecast hourly_card;
     Some (El ''div'' ''hourly-forecast mb-3''
       [Plain ''h5'' [Text ''Hourly Forecast''], El ''div'' ''row'' [cards]])
   }"

definition daily_card :: "js \<Rightarrow> nat \<Rightarrow> node option" where
  "daily_card day idx = do {
     d \<leftarrow> getprop day ''date'';
     c \<leftarrow> getprop day ''conditions'';
     s \<leftarrow> getprop day ''solar_potential'';
     Some (Elem ''div'' (Some ''card mb-2'') (Some idx)
       [El ''div'' ''card-body''
         [El ''h6'' ''card-title'' [Val d],
          El ''p'' ''card-text''
            [Plain ''strong'' [Text ''Conditions:''], Text '' '', Val c, Plain ''br'' [],
             Plain ''strong'' [Text ''Solar Potential:''], Text '' '', Val s]]])
   }"

definition renderDailyForecast :: "js \<Rightarrow> node option" where
  "renderDailyForecast content = do {
     daily_forecast \<leftarrow> getprop content ''daily_forecast'';
     cards \<leftarrow> js_map daily_forecast daily_card;
     Some (El ''div'' ''daily-forecast mb-3'' [Plain ''h5'' [Text ''Daily Forecast''], cards])
   }"

definition renderMarineConditions :: "js \<Rightarrow> node option" where
  "renderMarineConditions content = do {
     wave_conditions \<leftarrow> getprop content ''wave_conditions'';
     h \<leftarrow> getprop wave_conditions ''wave_height'';
     d \<leftarrow> getprop wave_conditions ''wave_direction'';
     t \<leftarrow> getprop wave_conditions ''sea_temperature'';
     Some (El ''div'' ''marine-conditions mb-3''
       [Plain ''h5'' [Text ''Marine Conditions''],
        El ''div'' ''card''
          [El ''div'' ''card-body''
            [El ''p'' ''card-text''
              [Plain ''strong'' [Text ''Wave Height:''], Text '' '', Val h, Plain ''br'' [],
               Plain ''strong'' [Text ''Wave Direction:''], Text '' '', Val d, Plain ''br'' [],
               Plain ''strong'' [Text ''Sea Temperature:''], Text '' '', Val t]]]])
   }"

definition renderAirQuality :: "js \<Rightarrow> node option" where
  "renderAirQuality content = do {
     air_quality_metrics \<leftarrow> getprop content ''air_quality_metrics'';
     a \<leftarrow> getprop air_quality_metrics ''aqi_level'';
     p \<leftarrow> getprop air_quality_metrics ''pollutants'';
     h \<leftarrow> getprop air_quality_metrics ''health_implications'';
     Some (El ''div'' ''air-quality mb-3''
       [Plain ''h5'' [Text ''Air Quality''],
        El ''div'' ''card''
          [El ''div'' ''card-body''
            [El ''p'' ''card-text''
              [Plain ''strong'' [Text ''AQI Level:''], Text '' '', Val a, Plain ''br'' [],
               Plain ''strong'' [Text ''Pollutants:''], Text '' '', Val p, Plain ''br'' [],
               Plain ''strong'' [Text ''Health Implications:''], Text '' '', Val h]]]])
   }"

definition recommendation_card :: "js \<Rightarrow> nat \<Rightarrow> node option" where
  "recommendation_card rec idx = do {
     c \<leftarrow> getprop rec ''category'';
     a \<leftarrow> getprop rec ''advice'';
     Some (Elem ''div'' (Some ''col-md-6 mb-2'') (Some idx)
       [El ''div'' ''card h-100''
         [El ''div'' ''card-body''
           [El ''h6'' ''card-title'' [Val c], El ''p'' ''card-text'' [Val a]]]])
   }"

definition renderRecommendations :: "js \<Rightarrow> node option" where
  "renderRecommendations content = do {
     recommendations \<leftarrow> getprop content ''recommendations'';
     if \<not> truthy (opt_get recommendations ''length'') then Some (Val Null)
     else do {
       cards \<leftarrow> js_map recommendations recommendation_card;
       Some (El ''div'' ''recommendations-section mb-3''
         [Plain ''h5'' [Text ''Recommendations''], El ''div'' ''row'' [cards]])
     }
   }"

text \<open>\<^verbatim>\<open>cond && block\<close> as a child: \<^verbatim>\<open>false\<close> when the condition fails.\<close>

definition and_then :: "bool \<Rightarrow> node option \<Rightarrow> node option" where
  "and_then cond block = (if cond then block else Some (Val (Bool False)))"

text \<open>
  \<^verbatim>\<open>renderWeatherData\<close>. \<open>None\<close> is a TypeError thrown while the element is built. After
  the first line \<open>content\<close> is neither \<^verbatim>\<open>null\<close> nor \<^verbatim>\<open>undefined\<close>, so the reads of
  \<^verbatim>\<open>content.query_type\<close> and \<^verbatim>\<open>content.time_frame\<close> in the conditions cannot throw;
  \<^verbatim>\<open>=== 'forecast'\<close> holds of the string \<^verbatim>\<open>'forecast'\<close> alone.
\<close>

definition renderWeatherData :: "js \<Rightarrow> node option" where
  "renderWeatherData content = do {
     query_type \<leftarrow> getprop content ''query_type'';
     if \<not> truthy query_type then Some (JSON_stringify content)
     else do {
       location \<leftarrow> getprop content ''location'';
       city \<leftarrow> getprop location ''city'';
       coordinates \<leftarrow> getprop location ''coordinates'';
       lat \<leftarrow> getprop coordinates ''lat'';
       lon \<leftarrow> getprop coordinates ''lon'';
       summary \<leftarrow> getprop content ''summary'';
       hourly \<leftarrow> and_then (property content ''query_type'' = Str ''forecast''
                            \<and> property content ''time_frame'' = Str ''hourly'')
                   (renderHourlyForecast content);
       daily \<leftarrow> and_then (property content ''query_type'' = Str ''forecast''
                           \<and> property content ''time_frame'' = Str ''daily'')
                  (renderDailyForecast content);
       marine \<leftarrow> and_then (property content ''query_type'' = Str ''marine'')
                   (renderMarineConditions content);
       air \<leftarrow> and_then (property content ''query_type'' = Str ''air_quality'')
                (renderAirQuality content);
       recs \<leftarrow> renderRecommendations content;
       Some (El ''div'' ''weather-analysis''
         [El ''div'' ''location-info mb-3''
            [Plain ''h4''
              [Val city,
               El ''small'' ''text-muted ml-2''
                 [Text ''('', Val lat, Text '', '', Val lon, Text '')'']]],
          El ''div'' ''summary-section mb-3'' [El ''p'' ''lead'' [Val summary]],
          hourly, daily, marine, air, recs])
     }
   }"

text \<open>
  \<^verbatim>\<open>renderMessage\<close>: a user entry shows its text, any other entry goes through
  \<^verbatim>\<open>renderWeatherData\<close>.
\<close>

definition renderMessage :: "msg \<Rightarrow> nat \<Rightarrow> node option" where
  "renderMessage m index =
     (let isUser = (msg_type m = ''user'') in do {
        inner \<leftarrow> (if isUser then Some (Val (msg_content m))
                  else renderWeatherData (msg_content m));
        Some (Elem ''div''
          (Some (''message '' @ (if isUser then ''user-message'' else ''assistant-message'')
                 @ '' mb-4''))
          (Some index)
          [El ''div'' ''message-header''
             [Plain ''strong'' [Text (if isUser then ''You'' else ''Assistant'')],
              El ''small'' ''text-muted ml-2'' [Text (msg_timestamp m)]],
           El ''div''
             (''message-content mt-2 p-3 rounded ''
              @ (if isUser then ''bg-primary text-white'' else ''bg-light''))
             [inner]])
      })"

section \<open>The specification's vocabulary\<close>

text \<open>
  The rule of the specification for the type-specific block, as a match on the two
  discriminants, and the renderer each block stands for.
\<close>

datatype block = Hourly | Daily | Marine | AirQuality

definition select_block :: "js \<Rightarrow> js \<Rightarrow> block option" where
  "select_block query_type time_frame =
     (if query_type = Str ''forecast'' \<and> time_frame = Str ''hourly'' then Some Hourly
      else if query_type = Str ''forecast'' \<and> time_frame = Str ''daily'' then Some Daily
      else if query_type = Str ''marine'' then Some Marine
      else if query_type = Str ''air_quality'' then Some AirQuality
      else None)"

fun render_block :: "block \<Rightarrow> js \<Rightarrow> node option" where
  "render_block Hourly content = renderHourlyForecast content"
| "render_block Daily content = renderDailyForecast content"
| "render_block Marine content = renderMarineConditions content"
| "render_block AirQuality content = renderAirQuality content"

text \<open>The location header and the summary of a document.\<close>

definition location_info :: "js \<Rightarrow> node" where
  "location_info content =
     (let location = property content ''location'';
          coordinates = property location ''coordinates''
      in El ''div'' ''location-info mb-3''
           [Plain ''h4''
             [Val (property location ''city''),
              El ''small'' ''text-muted ml-2''
                [Text ''('', Val (property coordinates ''lat''), Text '', '',
                 Val (property coordinates ''lon''), Text '')'']]])"

definition summary_section :: "js \<Rightarrow> node" where
  "summary_section content =
     El ''div'' ''summary-section mb-3'' [El ''p'' ''lead'' [Val (property content ''summary'')]]"

text \<open>
  The children that appear on the page: React draws nothing for \<^verbatim>\<open>false\<close>,
  \<^verbatim>\<open>true\<close>, \<^verbatim>\<open>null\<close> and \<^verbatim>\<open>undefined\<close>.
\<close>

fun drawn :: "node \<Rightarrow> bool" where
  "drawn (Val (Bool b)) = False"
| "drawn (Val Null) = False"
| "drawn (Val Undefined) = False"
| "drawn n = True"

definition shown :: "node list \<Rightarrow> node list" where
  "shown ns = filter drawn ns"

fun nonempty_sequence :: "js \<Rightarrow> bool" where
  "nonempty_sequence (Arr (x # xs)) = True"
| "nonempty_sequence v = False"

text \<open>
  What each block shows: its title and the fields of its payload, in the order of the
  data model. A sequence gives one card for each item, in the order given, keyed by
  the position of the item.
\<close>

definition forecast_lines :: "js \<Rightarrow> node list" where
  "forecast_lines item =
     [Plain ''strong'' [Text ''Conditions:''], Text '' '', Val (property item ''conditions''),
      Plain ''br'' [],
      Plain ''strong'' [Text ''Solar Potential:''], Text '' '',
      Val (property item ''solar_potential'')]"

definition hourly_item :: "js \<Rightarrow> nat \<Rightarrow> node" where
  "hourly_item hour idx =
     Elem ''div'' (Some ''col-md-4 mb-2'') (Some idx)
       [El ''div'' ''card h-100''
         [El ''div'' ''card-body''
           [El ''h6'' ''card-title'' [Val (property hour ''hour'')],
            El ''p'' ''card-text'' (forecast_lines hour)]]]"

definition daily_item :: "js \<Rightarrow> nat \<Rightarrow> node" where
  "daily_item day idx =
     Elem ''div'' (Some ''card mb-2'') (Some idx)
       [El ''div'' ''card-body''
         [El ''h6'' ''card-title'' [Val (property day ''date'')],
          El ''p'' ''card-text'' (forecast_lines day)]]"

definition recommendation_item :: "js \<Rightarrow> nat \<Rightarrow> node" where
  "recommendation_item rec idx =
     Elem ''div'' (Some ''col-md-6 mb-2'') (Some idx)
       [El ''div'' ''card h-100''
         [El ''div'' ''card-body''
           [El ''h6'' ''card-title'' [Val (property rec ''category'')],
            El ''p'' ''card-text'' [Val (property rec ''advice'')]]]]"

definition items :: "js \<Rightarrow> js list" where
  "items v = (case v of Arr xs \<Rightarrow> xs | _ \<Rightarrow> [])"

definition cards_of :: "(js \<Rightarrow> nat \<Rightarrow> node) \<Rightarrow> js \<Rightarrow> node" where
  "cards_of item v =
     Nodes (map (\<lambda>(x, i). item x i) (zip (items v) [0..<length (items v)]))"

definition measurements ::
  "string \<Rightarrow> string \<Rightarrow> string \<times> js \<Rightarrow> string \<times> js \<Rightarrow> string \<times> js \<Rightarrow> node" where
  "measurements cls title first second third =
     El ''div'' cls
       [Plain ''h5'' [Text title],
        El ''div'' ''card''
          [El ''div'' ''card-body''
            [El ''p'' ''card-text''
              [Plain ''strong'' [Text (fst first)], Text '' '', Val (snd first), Plain ''br'' [],
               Plain ''strong'' [Text (fst second)], Text '' '', Val (snd second), Plain ''br'' [],
               Plain ''strong'' [Text (fst third)], Text '' '', Val (snd third)]]]]"

fun block_view :: "block \<Rightarrow> js \<Rightarrow> node" where
  "block_view Hourly content =
     El ''div'' ''hourly-forecast mb-3''
       [Plain ''h5'' [Text ''Hourly Forecast''],
        El ''div'' ''row'' [cards_of hourly_item (property content ''hourly_forecast'')]]"
| "block_view Daily content =
     El ''div'' ''daily-forecast mb-3''
       [Plain ''h5'' [Text ''Daily Forecast''],
        cards_of daily_item (property content ''daily_forecast'')]"
| "block_view Marine content =
     (let w = property content ''wave_conditions''
      in measurements ''marine-conditions mb-3'' ''Marine Conditions''
           (''Wave Height:'', property w ''wave_height'')
           (''Wave Direction:'', property w ''wave_direction'')
           (''Sea Temperature:'', property w ''sea_temperature''))"
| "block_view AirQuality content =
     (let a = property content ''air_quality_metrics''
      in measurements ''air-quality mb-3'' ''Air Quality''
           (''AQI Level:'', property a ''aqi_level'')
           (''Pollutants:'', property a ''pollutants'')
           (''Health Implications:'', property a ''health_implications''))"

definition recommendations_view :: "js \<Rightarrow> node" where
  "recommendations_view content =
     El ''div'' ''recommendations-section mb-3''
       [Plain ''h5'' [Text ''Recommendations''],
        El ''div'' ''row'' [cards_of recommendation_item (property content ''recommendations'')]]"

text \<open>
  The card the specification describes for a document: header, summary, the selected
  block if there is one, and the recommendations if there are any.
\<close>

definition card_parts :: "js \<Rightarrow> node list" where
  "card_parts content =
     [location_info content, summary_section content]
     @ (case select_block (property content ''query_type'') (property content ''time_frame'') of
          None \<Rightarrow> [] | Some b \<Rightarrow> [block_view b content])
     @ (if nonempty_sequence (property content ''recommendations'')
        then [recommendations_view content] else [])"

text \<open>A sequence of items, none of them \<^verbatim>\<open>null\<close>.\<close>

definition sequence :: "js \<Rightarrow> bool" where
  "sequence v = (case v of Arr xs \<Rightarrow> list_all (\<lambda>x. \<not> nullish x) xs | _ \<Rightarrow> False)"

text \<open>
  A document of the data model: the discriminant is there, the location has its
  coordinates, the payload that the discriminants announce is populated, and
  \<^verbatim>\<open>recommendations\<close> is left out or is a sequence.
\<close>

definition well_formed :: "js \<Rightarrow> bool" where
  "well_formed content =
     (truthy (opt_get content ''query_type'') \<and>
      \<not> nullish (property content ''location'') \<and>
      \<not> nullish (property (property content ''location'') ''coordinates'') \<and>
      (case select_block (property content ''query_type'') (property content ''time_frame'') of
         None \<Rightarrow> True
       | Some Hourly \<Rightarrow> sequence (property content ''hourly_forecast'')
       | Some Daily \<Rightarrow> sequence (property content ''daily_forecast'')
       | Some Marine \<Rightarrow> \<not> nullish (property content ''wave_conditions'')
       | Some AirQuality \<Rightarrow> \<not> nullish (property content ''air_quality_metrics'')) \<and>
      (nullish (property content ''recommendations'')
       \<or> sequence (property content ''recommendations'')))"

text \<open>An input with no \<^verbatim>\<open>query_type\<close>: only an object can carry one.\<close>

fun lacks_query_type :: "js \<Rightarrow> bool" where
  "lacks_query_type (Obj kvs) = (map_of kvs ''query_type'' = None)"
| "lacks_query_type v = True"

section \<open>Sample sessions and documents\<close>

text \<open>The daily forecast of Lagos, with one recommendation.\<close>

definition lagos :: js where
  "lagos = Obj
     [(''query_type'', Str ''forecast''),
      (''time_frame'', Str ''daily''),
      (''location'', Obj [(''city'', Str ''Lagos''),
                          (''coordinates'', Obj [(''lat'', Num (13 / 2)), (''lon'', Num (17 / 5))])]),
      (''summary'', Str ''Mostly sunny''),
      (''daily_forecast'',
         Arr [Obj [(''date'', Str ''2024-01-01''), (''conditions'', Str ''Sunny''),
                   (''solar_potential'', Str ''High'')]]),
      (''recommendations'',
         Arr [Obj [(''category'', Str ''Solar''), (''advice'', Str ''Run the pump at noon'')]])]"

definition lagos_card :: node where
  "lagos_card =
     El ''div'' ''weather-analysis''
       [El ''div'' ''location-info mb-3''
          [Plain ''h4''
            [Text ''Lagos'',
             El ''small'' ''text-muted ml-2''
               [Text ''('', Val (Num (13 / 2)), Text '', '', Val (Num (17 / 5)), Text '')'']]],
        El ''div'' ''summary-section mb-3'' [El ''p'' ''lead'' [Text ''Mostly sunny'']],
        Val (Bool False),
        El ''div'' ''daily-forecast mb-3''
          [Plain ''h5'' [Text ''Daily Forecast''],
           Nodes
             [Elem ''div'' (Some ''card mb-2'') (Some 0)
               [El ''div'' ''card-body''
                 [El ''h6'' ''card-title'' [Text ''2024-01-01''],
                  El ''p'' ''card-text''
                    [Plain ''strong'' [Text ''Conditions:''], Text '' '', Text ''Sunny'',
                     Plain ''br'' [],
                     Plain ''strong'' [Text ''Solar Potential:''], Text '' '', Text ''High'']]]]],
        Val (Bool False),
        Val (Bool False),
        El ''div'' ''recommendations-section mb-3''
          [Plain ''h5'' [Text ''Recommendations''],
           El ''div'' ''row''
             [Nodes
               [Elem ''div'' (Some ''col-md-6 mb-2'') (Some 0)
                 [El ''div'' ''card h-100''
                   [El ''div'' ''card-body''
                     [El ''h6'' ''card-title'' [Text ''Solar''],
                      El ''p'' ''card-text'' [Text ''Run the pump at noon'']]]]]]]]"

text \<open>A document whose discriminant is the empty string.\<close>

definition untyped :: js where
  "untyped = Obj [(''query_type'', Str []), (''summary'', Str ''Mostly sunny'')]"

text \<open>
  A document that has the discriminant, with the empty string in it, and is otherwise
  complete.
\<close>

definition blank_discriminant :: js where
  "blank_discriminant = Obj
     [(''query_type'', Str []),
      (''location'', Obj [(''city'', Str ''Lagos''),
                          (''coordinates'', Obj [(''lat'', Num (13 / 2)), (''lon'', Num (17 / 5))])]),
      (''summary'', Str ''Mostly sunny'')]"

text \<open>An hourly forecast, a marine report and an air-quality report of the same place.\<close>

definition place :: js where
  "place = Obj [(''city'', Str ''Lagos''),
                (''coordinates'', Obj [(''lat'', Num (13 / 2)), (''lon'', Num (17 / 5))])]"

definition noon :: js where
  "noon = Obj
     [(''query_type'', Str ''forecast''),
      (''time_frame'', Str ''hourly''),
      (''location'', place),
      (''summary'', Str ''Clear''),
      (''hourly_forecast'',
         Arr [Obj [(''hour'', Str ''12:00''), (''conditions'', Str ''Sunny''),
                   (''solar_potential'', Str ''High'')],
              Obj [(''hour'', Str ''13:00''), (''conditions'', Str ''Cloudy''),
                   (''solar_potential'', Str ''Low'')]])]"

definition noon_block :: node where
  "noon_block =
     El ''div'' ''hourly-forecast mb-3''
       [Plain ''h5'' [Text ''Hourly Forecast''],
        El ''div'' ''row''
          [Nodes
            [Elem ''div'' (Some ''col-md-4 mb-2'') (Some 0)
              [El ''div'' ''card h-100''
                [El ''div'' ''card-body''
                  [El ''h6'' ''card-title'' [Text ''12:00''],
                   El ''p'' ''card-text''
                     [Plain ''strong'' [Text ''Conditions:''], Text '' '', Text ''Sunny'',
                      Plain ''br'' [],
                      Plain ''strong'' [Text ''Solar Potential:''], Text '' '', Text ''High'']]]],
             Elem ''div'' (Some ''col-md-4 mb-2'') (Some 1)
              [El ''div'' ''card h-100''
                [El ''div'' ''card-body''
                  [El ''h6'' ''card-title'' [Text ''13:00''],
                   El ''p'' ''card-text''
                     [Plain ''strong'' [Text ''Conditions:''], Text '' '', Text ''Cloudy'',
                      Plain ''br'' [],
                      Plain ''strong'' [Text ''Solar Potential:''], Text '' '', Text ''Low'']]]]]]]"

definition harbour :: js where
  "harbour = Obj
     [(''query_type'', Str ''marine''),
      (''location'', place),
      (''summary'', Str ''Calm sea''),
      (''wave_conditions'',
         Obj [(''wave_height'', Num (3 / 2)), (''wave_direction'', Str ''SW''),
              (''sea_temperature'', Num 27)])]"

definition harbour_block :: node where
  "harbour_block =
     El ''div'' ''marine-conditions mb-3''
       [Plain ''h5'' [Text ''Marine Conditions''],
        El ''div'' ''card''
          [El ''div'' ''card-body''
            [El ''p'' ''card-text''
              [Plain ''strong'' [Text ''Wave Height:''], Text '' '', Val (Num (3 / 2)),
               Plain ''br'' [],
               Plain ''strong'' [Text ''Wave Direction:''], Text '' '', Text ''SW'',
               Plain ''br'' [],
               Plain ''strong'' [Text ''Sea Temperature:''], Text '' '', Val (Num 27)]]]]"

definition smog :: js where
  "smog = Obj
     [(''query_type'', Str ''air_quality''),
      (''location'', place),
      (''summary'', Str ''Hazy''),
      (''air_quality_metrics'',
         Obj [(''aqi_level'', Num 120), (''pollutants'', Str ''PM2.5''),
              (''health_implications'', Str ''Limit outdoor work'')])]"

definition smog_block :: node where
  "smog_block =
     El ''div'' ''air-quality mb-3''
       [Plain ''h5'' [Text ''Air Quality''],
        El ''div'' ''card''
          [El ''div'' ''card-body''
            [El ''p'' ''card-text''
              [Plain ''strong'' [Text ''AQI Level:''], Text '' '', Val (Num 120),
               Plain ''br'' [],
               Plain ''strong'' [Text ''Pollutants:''], Text '' '', Text ''PM2.5'',
               Plain ''br'' [],
               Plain ''strong'' [Text ''Health Implications:''], Text '' '',
               Text ''Limit outdoor work'']]]]"

text \<open>A document of a type the renderer has no block for.\<close>

definition pollen :: js where
  "pollen = Obj
     [(''query_type'', Str ''pollen''),
      (''time_frame'', Str ''hourly''),
      (''location'', place),
      (''summary'', Str ''Low pollen'')]"

text \<open>A network that never answers, and one that answers every request with Lagos.\<close>

definition offline :: "request \<Rightarrow> outcome" where
  "offline r = Rejected None"

definition online :: "request \<Rightarrow> outcome" where
  "online r = Resolved lagos"

text \<open>The user types \<open>q\<close> and submits; the clock reads are fixed.\<close>

definition ask :: "state \<Rightarrow> string \<Rightarrow> (request \<Rightarrow> outcome) \<Rightarrow> state" where
  "ask st q net =
     (let st' = apply_effect st (SetMessage q)
      in run st' (handleSubmit None st' ''10:00:00'' net ''10:00:05''))"

definition question :: "string \<Rightarrow> msg" where
  "question q = \<lparr>msg_type = ''user'', msg_content = Str q, msg_timestamp = ''10:00:00''\<rparr>"

definition answer :: msg where
  "answer = \<lparr>msg_type = ''assistant'', msg_content = lagos, msg_timestamp = ''10:00:05''\<rparr>"

text \<open>Five questions, none of them answered.\<close>

definition five_unanswered :: state where
  "five_unanswered =
     \<lparr>message = [],
      conversations = [question ''q1'', question ''q2'', question ''q3'', question ''q4'',
                       question ''q5''],
      loading = False,
      error = Some (Val fallback_message)\<rparr>"

text \<open>Five questions, each of them answered.\<close>

definition full_session :: state where
  "full_session =
     \<lparr>message = [],
      conversations = [question ''q1'', answer, question ''q2'', answer, question ''q3'', answer,
                       question ''q4'', answer, question ''q5'', answer],
      loading = False,
      error = None\<rparr>"

text \<open>The session of five unanswered questions, with a sixth typed in.\<close>

definition sixth_typed :: state where
  "sixth_typed = apply_effect five_unanswered (SetMessage ''q6'')"

section \<open>Properties of the model\<close>

subsection \<open>Running effects\<close>

lemma run_Nil: "run st [] = st"
  by (simp add: run_def)

lemma run_Cons: "run st (e # es) = run (apply_effect st e) es"
  by (simp add: run_def)

lemma run_append: "run st (es @ fs) = run (run st es) fs"
  by (simp add: run_def)

lemma turns_split: "length (conversations st) = user_turns st + assistant_turns st"
  unfolding user_turns_def assistant_turns_def
  by (simp add: sum_length_filter_compl)

text \<open>
  Five answered questions reach the limit, and the guard of the handler and the number
  in the header agree: the limit is reached exactly when no question is left.
\<close>

lemma five_answered_reach_limit:
  "user_turns st = 5 \<Longrightarrow> assistant_turns st = 5 \<Longrightarrow> limit_reached st"
  by (simp add: limit_reached_def turns_split)

lemma limit_iff_none_remaining: "limit_reached st = (remainingQuestions st \<le> 0)"
  unfolding limit_reached_def remainingQuestions_def by linarith

text \<open>The \<^verbatim>\<open>catch\<close> block never throws: it always has a message to set.\<close>

lemma errorMessage_total: "errorMessage r \<noteq> None"
  by (cases r) (auto simp: errorMessage_def getprop_def opt_get_def response_data_def split: if_splits)

text \<open>Both sample sessions are reached from the initial state by the handler alone.\<close>

lemma five_unanswered_reachable:
  "five_unanswered =
     ask (ask (ask (ask (ask initial ''q1'' offline) ''q2'' offline) ''q3'' offline)
            ''q4'' offline) ''q5'' offline"
  by (simp add: five_unanswered_def ask_def initial_def run_def handleSubmit_def
      handleSubmit_sync_def handleSubmit_resume_def limit_reached_def offline_def
      errorMessage_def response_data_def opt_get_def userMessage_def question_def)

lemma full_session_reachable:
  "full_session =
     ask (ask (ask (ask (ask initial ''q1'' online) ''q2'' online) ''q3'' online)
            ''q4'' online) ''q5'' online"
  by (simp add: full_session_def ask_def initial_def run_def handleSubmit_def
      handleSubmit_sync_def handleSubmit_resume_def limit_reached_def online_def
      userMessage_def assistantMessage_def question_def answer_def)

subsection \<open>Reading properties and mapping over arrays\<close>

lemma getprop_Some: "getprop v k = Some x \<longleftrightarrow> \<not> nullish v \<and> x = property v k"
  by (auto simp: getprop_def)

lemma getprop_ok: "\<not> nullish v \<Longrightarrow> getprop v k = Some (property v k)"
  by (simp add: getprop_def)

lemma map_idx_total:
  "(\<And>x j. x \<in> set xs \<Longrightarrow> f x j \<noteq> None) \<Longrightarrow> map_idx f i xs \<noteq> None"
proof (induction xs arbitrary: i)
  case Nil
  then show ?case by simp
next
  case (Cons x xs)
  from Cons.prems have "f x i \<noteq> None" by simp
  moreover from Cons have "map_idx f (Suc i) xs \<noteq> None" by simp
  ultimately show ?case by auto
qed

lemma map_idx_length: "map_idx f i xs = Some ys \<Longrightarrow> length ys = length xs"
  by (induction xs arbitrary: i ys) (auto split: bind_splits)

text \<open>The cards of a sequence can all be built.\<close>

lemma cards_total:
  assumes "sequence v"
  shows "js_map v hourly_card \<noteq> None \<and> js_map v daily_card \<noteq> None
           \<and> js_map v recommendation_card \<noteq> None"
proof -
  from assms obtain xs where v: "v = Arr xs" and ok: "list_all (\<lambda>x. \<not> nullish x) xs"
    by (auto simp: sequence_def split: js.splits)
  have "map_idx hourly_card 0 xs \<noteq> None"
    by (rule map_idx_total) (use ok in \<open>auto simp: hourly_card_def getprop_ok list_all_iff\<close>)
  moreover have "map_idx daily_card 0 xs \<noteq> None"
    by (rule map_idx_total) (use ok in \<open>auto simp: daily_card_def getprop_ok list_all_iff\<close>)
  moreover have "map_idx recommendation_card 0 xs \<noteq> None"
    by (rule map_idx_total)
       (use ok in \<open>auto simp: recommendation_card_def getprop_ok list_all_iff\<close>)
  ultimately show ?thesis using v by (auto simp: js_map_def)
qed

subsection \<open>The parts of a card\<close>

lemma block_drawn: "render_block b content = Some n \<Longrightarrow> drawn n"
  by (cases b)
     (auto simp: renderHourlyForecast_def renderDailyForecast_def renderMarineConditions_def
        renderAirQuality_def split: bind_splits)

lemma nonempty_sequence_Arr: "nonempty_sequence (Arr xs) = (xs \<noteq> [])"
  by (cases xs) simp_all

text \<open>
  The recommendations block is drawn exactly for a non-empty array, and then it holds
  one card for each item.
\<close>

lemma recommendations_shape:
  assumes "renderRecommendations content = Some recs"
  shows "drawn recs = nonempty_sequence (property content ''recommendations'')"
    and "recs = Val Null \<or>
           (\<exists>xs cards. property content ''recommendations'' = Arr xs \<and>
              length cards = length xs \<and>
              recs = El ''div'' ''recommendations-section mb-3''
                       [Plain ''h5'' [Text ''Recommendations''], El ''div'' ''row'' [Nodes cards]])"
  using assms
  by (auto simp: renderRecommendations_def getprop_Some opt_get_def js_map_def
         nonempty_sequence_Arr
       dest: map_idx_length split: bind_splits if_splits js.splits)

lemma recommendations_total:
  assumes "\<not> nullish content"
    and "nullish (property content ''recommendations'')
           \<or> sequence (property content ''recommendations'')"
  shows "renderRecommendations content \<noteq> None"
  using assms cards_total[of "property content ''recommendations''"]
  by (auto simp: renderRecommendations_def getprop_ok opt_get_def)

text \<open>Whenever a card is built, its children are the seven of the source, in its order.\<close>

lemma render_structure:
  assumes "renderWeatherData content = Some out"
    and "truthy (opt_get content ''query_type'')"
  shows "\<exists>rest.
           out = El ''div'' ''weather-analysis''
                   (location_info content # summary_section content # rest) \<and>
           length rest = 5 \<and>
           map Some (shown rest) =
             (case select_block (property content ''query_type'') (property content ''time_frame'') of
                None \<Rightarrow> [] | Some b \<Rightarrow> [render_block b content])
             @ (if nonempty_sequence (property content ''recommendations'')
                then [renderRecommendations content] else [])"
proof -
  from assms(2) have q: "truthy (property content ''query_type'')"
    by (auto simp: opt_get_def split: if_splits)
  from assms(1) q obtain hourly daily marine air recs where
    h: "and_then (property content ''query_type'' = Str ''forecast''
                   \<and> property content ''time_frame'' = Str ''hourly'')
          (renderHourlyForecast content) = Some hourly"
    and d: "and_then (property content ''query_type'' = Str ''forecast''
                   \<and> property content ''time_frame'' = Str ''daily'')
          (renderDailyForecast content) = Some daily"
    and m: "and_then (property content ''query_type'' = Str ''marine'')
          (renderMarineConditions content) = Some marine"
    and a: "and_then (property content ''query_type'' = Str ''air_quality'')
          (renderAirQuality content) = Some air"
    and r: "renderRecommendations content = Some recs"
    and out: "out = El ''div'' ''weather-analysis''
                (location_info content # summary_section content
                 # [hourly, daily, marine, air, recs])"
    by (auto simp: renderWeatherData_def getprop_Some location_info_def summary_section_def
          Let_def split: bind_splits if_splits)
  have blocks: "map Some (shown [hourly, daily, marine, air]) =
          (case select_block (property content ''query_type'') (property content ''time_frame'') of
             None \<Rightarrow> [] | Some b \<Rightarrow> [render_block b content])"
    using h d m a block_drawn[of Hourly content hourly] block_drawn[of Daily content daily]
      block_drawn[of Marine content marine] block_drawn[of AirQuality content air]
    by (auto simp: and_then_def select_block_def shown_def split: if_splits)
  have recs: "map Some (shown [recs]) =
          (if nonempty_sequence (property content ''recommendations'')
           then [renderRecommendations content] else [])"
    using r recommendations_shape(1)[OF r] by (simp add: shown_def)
  have "shown [hourly, daily, marine, air, recs] = shown [hourly, daily, marine, air] @ shown [recs]"
    by (simp add: shown_def)
  with blocks recs out show ?thesis
    by (intro exI[of _ "[hourly, daily, marine, air, recs]"]) simp
qed

text \<open>A document of the data model is rendered without an exception.\<close>

lemma render_total:
  assumes "well_formed content"
  shows "renderWeatherData content \<noteq> None"
proof -
  from assms have nn: "\<not> nullish content" and q: "truthy (property content ''query_type'')"
    by (auto simp: well_formed_def opt_get_def split: if_splits)
  from assms nn have r: "renderRecommendations content \<noteq> None"
    by (intro recommendations_total) (auto simp: well_formed_def)
  have blk: "render_block b content \<noteq> None"
    if "select_block (property content ''query_type'') (property content ''time_frame'') = Some b"
    for b
    using that assms nn cards_total[of "property content ''hourly_forecast''"]
      cards_total[of "property content ''daily_forecast''"]
    by (cases b)
       (auto simp: well_formed_def renderHourlyForecast_def renderDailyForecast_def
          renderMarineConditions_def renderAirQuality_def getprop_ok)
  have h: "and_then (property content ''query_type'' = Str ''forecast''
                   \<and> property content ''time_frame'' = Str ''hourly'')
          (renderHourlyForecast content) \<noteq> None"
    using blk[of Hourly] by (auto simp: and_then_def select_block_def)
  have d: "and_then (property content ''query_type'' = Str ''forecast''
                   \<and> property content ''time_frame'' = Str ''daily'')
          (renderDailyForecast content) \<noteq> None"
    using blk[of Daily] by (auto simp: and_then_def select_block_def)
  have m: "and_then (property content ''query_type'' = Str ''marine'')
          (renderMarineConditions content) \<noteq> None"
    using blk[of Marine] by (auto simp: and_then_def select_block_def)
  have a: "and_then (property content ''query_type'' = Str ''air_quality'')
          (renderAirQuality content) \<noteq> None"
    using blk[of AirQuality] by (auto simp: and_then_def select_block_def)
  from assms nn q h d m a r show ?thesis
    by (auto simp: renderWeatherData_def getprop_ok well_formed_def)
qed

lemma falsy_values: "(\<not> truthy q) = (q \<in> {Undefined, Null, Bool False, Num 0, Str []})"
  by (cases q) auto

lemma render_lagos: "renderWeatherData lagos = Some lagos_card"
  by (simp add: lagos_def lagos_card_def renderWeatherData_def getprop_def and_then_def
      renderDailyForecast_def js_map_def daily_card_def renderRecommendations_def opt_get_def
      recommendation_card_def)

text \<open>An input with no discriminant, other than \<^verbatim>\<open>null\<close>, is serialized whole.\<close>

lemma fallback_when_missing:
  assumes "lacks_query_type content" and "\<not> nullish content"
  shows "renderWeatherData content = Some (JSON_stringify content)"
  using assms by (cases content) (simp_all add: renderWeatherData_def getprop_def)


text \<open>A card that is built is the card of the item's view, so a map that succeeds
  yields the views of the items, in their order, with their positions.\<close>

lemma map_idx_view:
  assumes "\<And>x j n. f x j = Some n \<Longrightarrow> n = g x j"
    and "map_idx f i xs = Some ys"
  shows "ys = map (\<lambda>(x, j). g x j) (zip xs [i..<i + length xs])"
  using assms(2)
proof (induction xs arbitrary: i ys)
  case Nil
  then show ?case by simp
next
  case (Cons x xs)
  from Cons.prems obtain y ys' where y: "f x i = Some y"
    and ys': "map_idx f (Suc i) xs = Some ys'" and ys: "ys = y # ys'"
    by (auto split: bind_splits)
  from Cons.IH[OF ys'] have "ys' = map (\<lambda>(x, j). g x j) (zip xs [Suc i..<Suc i + length xs])" .
  moreover from assms(1)[OF y] have "y = g x i" .
  moreover have "[i..<i + length (x # xs)] = i # [Suc i..<i + length (x # xs)]"
    by (rule upt_conv_Cons) simp
  then have "[i..<i + length (x # xs)] = i # [Suc i..<Suc i + length xs]"
    by simp
  ultimately show ?case using ys by simp
qed

lemma js_map_view:
  assumes "\<And>x j n. f x j = Some n \<Longrightarrow> n = g x j"
    and "js_map v f = Some n"
  shows "n = cards_of g v"
proof -
  from assms(2) obtain xs ys where v: "v = Arr xs" and ys: "map_idx f 0 xs = Some ys"
    and n: "n = Nodes ys"
    by (auto simp: js_map_def split: js.splits)
  from map_idx_view[of f g 0 xs ys, OF assms(1) ys] n v show ?thesis
    by (simp add: cards_of_def items_def)
qed

lemma hourly_card_view: "hourly_card x j = Some n \<Longrightarrow> n = hourly_item x j"
  by (auto simp: hourly_card_def hourly_item_def forecast_lines_def getprop_Some
      split: bind_splits)

lemma daily_card_view: "daily_card x j = Some n \<Longrightarrow> n = daily_item x j"
  by (auto simp: daily_card_def daily_item_def forecast_lines_def getprop_Some
      split: bind_splits)

lemma recommendation_card_view:
  "recommendation_card x j = Some n \<Longrightarrow> n = recommendation_item x j"
  by (auto simp: recommendation_card_def recommendation_item_def getprop_Some
      split: bind_splits)

text \<open>Each renderer, when it returns, returns the view of its block.\<close>

lemma render_block_view:
  assumes "render_block b content = Some n"
  shows "n = block_view b content"
proof (cases b)
  case Hourly
  with assms obtain cards where
    "js_map (property content ''hourly_forecast'') hourly_card = Some cards"
    and "n = El ''div'' ''hourly-forecast mb-3''
               [Plain ''h5'' [Text ''Hourly Forecast''], El ''div'' ''row'' [cards]]"
    by (auto simp: renderHourlyForecast_def getprop_Some split: bind_splits)
  with js_map_view[of hourly_card hourly_item, OF hourly_card_view] Hourly show ?thesis
    by simp
next
  case Daily
  with assms obtain cards where
    "js_map (property content ''daily_forecast'') daily_card = Some cards"
    and "n = El ''div'' ''daily-forecast mb-3'' [Plain ''h5'' [Text ''Daily Forecast''], cards]"
    by (auto simp: renderDailyForecast_def getprop_Some split: bind_splits)
  with js_map_view[of daily_card daily_item, OF daily_card_view] Daily show ?thesis
    by simp
next
  case Marine
  with assms show ?thesis
    by (auto simp: renderMarineConditions_def measurements_def getprop_Some Let_def
        split: bind_splits)
next
  case AirQuality
  with assms show ?thesis
    by (auto simp: renderAirQuality_def measurements_def getprop_Some Let_def
        split: bind_splits)
qed

lemma renderRecommendations_view:
  assumes "renderRecommendations content = Some n"
    and "nonempty_sequence (property content ''recommendations'')"
  shows "n = recommendations_view content"
proof -
  from assms(2) obtain x xs where recs: "property content ''recommendations'' = Arr (x # xs)"
    by (auto elim: nonempty_sequence.elims)
  with assms(1) obtain cards where
    "js_map (property content ''recommendations'') recommendation_card = Some cards"
    and "n = El ''div'' ''recommendations-section mb-3''
               [Plain ''h5'' [Text ''Recommendations''], El ''div'' ''row'' [cards]]"
    by (auto simp: renderRecommendations_def getprop_Some opt_get_def split: bind_splits)
  with js_map_view[of recommendation_card recommendation_item, OF recommendation_card_view]
  show ?thesis by (simp add: recommendations_view_def)
qed

text \<open>What the page shows of a card is what the specification lists for the document.\<close>

lemma render_parts:
  assumes "renderWeatherData content = Some out"
    and "truthy (opt_get content ''query_type'')"
  shows "\<exists>rest.
           out = El ''div'' ''weather-analysis''
                   (location_info content # summary_section content # rest) \<and>
           length rest = 5 \<and>
           map Some (shown rest) =
             (case select_block (property content ''query_type'') (property content ''time_frame'') of
                None \<Rightarrow> [] | Some b \<Rightarrow> [render_block b content])
             @ (if nonempty_sequence (property content ''recommendations'')
                then [renderRecommendations content] else []) \<and>
           location_info content # summary_section content # shown rest = card_parts content"
proof -
  from render_structure[OF assms] obtain rest where
    out: "out = El ''div'' ''weather-analysis''
                   (location_info content # summary_section content # rest)"
    and len: "length rest = 5"
    and sh: "map Some (shown rest) =
             (case select_block (property content ''query_type'') (property content ''time_frame'') of
                None \<Rightarrow> [] | Some b \<Rightarrow> [render_block b content])
             @ (if nonempty_sequence (property content ''recommendations'')
                then [renderRecommendations content] else [])"
    by blast
  have "shown rest =
          (case select_block (property content ''query_type'') (property content ''time_frame'') of
             None \<Rightarrow> [] | Some b \<Rightarrow> [block_view b content])
          @ (if nonempty_sequence (property content ''recommendations'')
             then [recommendations_view content] else [])"
  proof (cases "select_block (property content ''query_type'') (property content ''time_frame'')")
    case None
    show ?thesis
    proof (cases "nonempty_sequence (property content ''recommendations'')")
      case True
      with sh None obtain n where "shown rest = [n]" "renderRecommendations content = Some n"
        by (cases "shown rest") auto
      with True None renderRecommendations_view[of content n] show ?thesis by simp
    next
      case False
      with sh None show ?thesis by simp
    qed
  next
    case (Some b)
    show ?thesis
    proof (cases "nonempty_sequence (property content ''recommendations'')")
      case True
      with sh Some obtain m n where "shown rest = [m, n]" "render_block b content = Some m"
        "renderRecommendations content = Some n"
        by (cases "shown rest"; cases "tl (shown rest)") auto
      with True Some render_block_view[of b content m] renderRecommendations_view[of content n]
      show ?thesis by simp
    next
      case False
      with sh Some obtain m where "shown rest = [m]" "render_block b content = Some m"
        by (cases "shown rest") auto
      with False Some render_block_view[of b content m] show ?thesis by simp
    qed
  qed
  then have "location_info content # summary_section content # shown rest = card_parts content"
    by (simp add: card_parts_def)
  with out len sh show ?thesis by blast
qed

lemma render_noon:
  "renderWeatherData noon =
     Some (El ''div'' ''weather-analysis''
       [location_info noon, summary_section noon, noon_block,
        Val (Bool False), Val (Bool False), Val (Bool False), Val Null])"
  by (simp add: noon_def noon_block_def place_def renderWeatherData_def getprop_def and_then_def
      renderHourlyForecast_def js_map_def hourly_card_def renderRecommendations_def opt_get_def
      location_info_def summary_section_def)

lemma render_harbour:
  "renderWeatherData harbour =
     Some (El ''div'' ''weather-analysis''
       [location_info harbour, summary_section harbour, Val (Bool False), Val (Bool False),
        harbour_block, Val (Bool False), Val Null])"
  by (simp add: harbour_def harbour_block_def place_def renderWeatherData_def getprop_def
      and_then_def renderMarineConditions_def renderRecommendations_def opt_get_def
      location_info_def summary_section_def)

lemma render_smog:
  "renderWeatherData smog =
     Some (El ''div'' ''weather-analysis''
       [location_info smog, summary_section smog, Val (Bool False), Val (Bool False),
        Val (Bool False), smog_block, Val Null])"
  by (simp add: smog_def smog_block_def place_def renderWeatherData_def getprop_def
      and_then_def renderAirQuality_def renderRecommendations_def opt_get_def
      location_info_def summary_section_def)

lemma render_pollen:
  "renderWeatherData pollen =
     Some (El ''div'' ''weather-analysis''
       [location_info pollen, summary_section pollen, Val (Bool False), Val (Bool False),
        Val (Bool False), Val (Bool False), Val Null])"
  by (simp add: pollen_def place_def renderWeatherData_def getprop_def
      and_then_def renderRecommendations_def opt_get_def
      location_info_def summary_section_def)

section \<open>The claims\<close>

subsection \<open>The conversation limit\<close>

text \<open>
  C1, as stated, counts user turns. The guard of \<^verbatim>\<open>handleSubmit\<close> reads
  \<^verbatim>\<open>conversations.length\<close>, the count of all turns. After five submissions that all
  failed the session holds five user turns and no assistant turn, and the sixth
  submission is not rejected: it appends its turn and posts the request.
\<close>

theorem sixth_submission_accepted:
  "user_turns five_unanswered = 5 \<and>
   handleSubmit None five_unanswered ''10:01:00'' offline ''10:01:05''
     \<noteq> [PreventDefault, SetError (Some limit_message)] \<and>
   list_ex is_post (handleSubmit None five_unanswered ''10:01:00'' offline ''10:01:05'') \<and>
   conversations
     (run five_unanswered (handleSubmit None five_unanswered ''10:01:00'' offline ''10:01:05''))
     \<noteq> conversations five_unanswered"
  by (simp add: user_turns_def five_unanswered_def question_def handleSubmit_def
      handleSubmit_sync_def limit_reached_def run_def handleSubmit_resume_def offline_def
      errorMessage_def response_data_def opt_get_def)

text \<open>
  C1, amended: in every session that holds at least 10 turns, user and assistant turns
  together (so after 5 user turns that were each answered), the next submission sets
  the limit message and does nothing else: no request is posted, whatever the network
  would answer, and the turn sequence is unchanged.
\<close>

theorem limit_rejects_submission:
  assumes "10 \<le> length (conversations st)"
  shows "handleSubmit env st now net now' = [PreventDefault, SetError (Some limit_message)] \<and>
         \<not> list_ex is_post (handleSubmit env st now net now') \<and>
         conversations (run st (handleSubmit env st now net now')) = conversations st \<and>
         error (run st (handleSubmit env st now net now')) = Some limit_message"
  using assms
  by (simp add: handleSubmit_def handleSubmit_sync_def limit_reached_def run_Cons run_Nil)

theorem limit_rejects_submission_witness:
  "user_turns full_session = 5 \<and> assistant_turns full_session = 5 \<and>
   10 \<le> length (conversations full_session) \<and>
   handleSubmit None full_session ''10:01:00'' online ''10:01:05''
     = [PreventDefault, SetError (Some limit_message)] \<and>
   \<not> list_ex is_post (handleSubmit None full_session ''10:01:00'' online ''10:01:05'') \<and>
   conversations
     (run full_session (handleSubmit None full_session ''10:01:00'' online ''10:01:05''))
     = conversations full_session"
proof -
  have n: "10 \<le> length (conversations full_session)"
    by (simp add: full_session_def)
  have "user_turns full_session = 5" and "assistant_turns full_session = 5"
    by (simp_all add: user_turns_def assistant_turns_def full_session_def question_def answer_def)
  with n limit_rejects_submission[OF n, of None "''10:01:00''" online "''10:01:05''"]
  show ?thesis by blast
qed

subsection \<open>The number of questions left\<close>

text \<open>
  C2: the header shows 5 minus half the number of turns, rounded down, where the turns
  are the user turns and the assistant turns together.
\<close>

theorem remainingQuestions_formula:
  "remainingQuestions st = 5 - int (length (conversations st) div 2) \<and>
   length (conversations st) = user_turns st + assistant_turns st"
proof
  show "remainingQuestions st = 5 - int (length (conversations st) div 2)"
    unfolding remainingQuestions_def by linarith
  show "length (conversations st) = user_turns st + assistant_turns st"
    by (rule turns_split)
qed

theorem remainingQuestions_formula_witness:
  "remainingQuestions five_unanswered = 3 \<and> remainingQuestions full_session = 0"
proof -
  have five: "length (conversations five_unanswered) = 5"
    by (simp add: five_unanswered_def)
  have ten: "length (conversations full_session) = 10"
    by (simp add: full_session_def)
  from remainingQuestions_formula[of five_unanswered, unfolded five]
    remainingQuestions_formula[of full_session, unfolded ten]
  show ?thesis by simp
qed

subsection \<open>A submission that fails\<close>

text \<open>
  C3: a submission that passes the limit check posts its request, with a timeout of
  30000 ms, and ends with the in-flight flag cleared, however the call ends. When the
  call is rejected (no response, or a response outside 2xx) and no other handler has
  run while it waited, the turns afterwards are the old ones and one more, the user
  turn with the text typed and the time of the submission: one user turn more, as many
  assistant turns as before, and the error value is set. The failure path by itself,
  from whatever state it resumes in, leaves the turns as they are, sets the error and
  clears the flag.
\<close>

theorem failed_submission:
  assumes "length (conversations st) < 10"
  shows "AxiosPost (chat_request env st) \<in> set (handleSubmit env st now net now') \<and>
         timeout (chat_request env st) = 30000 \<and>
         loading (run st (handleSubmit env st now net now')) = False \<and>
         (\<forall>r. net (chat_request env st) = Rejected r \<longrightarrow>
            conversations (run st (handleSubmit env st now net now'))
              = conversations st @ [userMessage st now] \<and>
            userMessage st now
              = \<lparr>msg_type = ''user'', msg_content = Str (message st), msg_timestamp = now\<rparr> \<and>
            user_turns (run st (handleSubmit env st now net now')) = Suc (user_turns st) \<and>
            assistant_turns (run st (handleSubmit env st now net now')) = assistant_turns st \<and>
            error (run st (handleSubmit env st now net now')) = errorMessage r \<and>
            error (run st (handleSubmit env st now net now')) \<noteq> None) \<and>
         (\<forall>st' r.
            conversations (run st' (handleSubmit_resume (Rejected r) now')) = conversations st' \<and>
            error (run st' (handleSubmit_resume (Rejected r) now')) = errorMessage r \<and>
            error (run st' (handleSubmit_resume (Rejected r) now')) \<noteq> None \<and>
            loading (run st' (handleSubmit_resume (Rejected r) now')) = False)"
proof -
  from assms have open_session: "\<not> limit_reached st"
    by (simp add: limit_reached_def)
  have post: "AxiosPost (chat_request env st) \<in> set (handleSubmit env st now net now')"
    using open_session by (simp add: handleSubmit_def handleSubmit_sync_def)
  have wait: "timeout (chat_request env st) = 30000"
    by (simp add: chat_request_def)
  have flag: "loading (run st (handleSubmit env st now net now')) = False"
    using open_session
    by (simp add: handleSubmit_def handleSubmit_resume_def run_append)
       (simp add: run_def)
  have resume: "conversations (run st' (handleSubmit_resume (Rejected r) now')) = conversations st' \<and>
            error (run st' (handleSubmit_resume (Rejected r) now')) = errorMessage r \<and>
            error (run st' (handleSubmit_resume (Rejected r) now')) \<noteq> None \<and>
            loading (run st' (handleSubmit_resume (Rejected r) now')) = False" for st' r
  proof -
    obtain m where "errorMessage r = Some m"
      using errorMessage_total[of r] by auto
    then show ?thesis
      by (simp add: handleSubmit_resume_def run_def)
  qed
  have failure: "conversations (run st (handleSubmit env st now net now'))
              = conversations st @ [userMessage st now] \<and>
            userMessage st now
              = \<lparr>msg_type = ''user'', msg_content = Str (message st), msg_timestamp = now\<rparr> \<and>
            user_turns (run st (handleSubmit env st now net now')) = Suc (user_turns st) \<and>
            assistant_turns (run st (handleSubmit env st now net now')) = assistant_turns st \<and>
            error (run st (handleSubmit env st now net now')) = errorMessage r \<and>
            error (run st (handleSubmit env st now net now')) \<noteq> None"
    if "net (chat_request env st) = Rejected r" for r
  proof -
    obtain m where m: "errorMessage r = Some m"
      using errorMessage_total[of r] by auto
    with that open_session
    have turns: "conversations (run st (handleSubmit env st now net now'))
              = conversations st @ [userMessage st now]"
      and err: "error (run st (handleSubmit env st now net now')) = errorMessage r"
      by (simp_all add: handleSubmit_def handleSubmit_sync_def handleSubmit_resume_def run_def)
    have "user_turns (run st (handleSubmit env st now net now')) = Suc (user_turns st)"
      and "assistant_turns (run st (handleSubmit env st now net now')) = assistant_turns st"
      unfolding user_turns_def assistant_turns_def turns
      by (simp_all add: userMessage_def)
    with turns err m show ?thesis by (simp add: userMessage_def)
  qed
  from post wait flag failure resume show ?thesis by blast
qed

theorem failed_submission_witness:
  "length (conversations sixth_typed) < 10 \<and>
   offline (chat_request None sixth_typed) = Rejected None \<and>
   loading (run sixth_typed
     (handleSubmit None sixth_typed ''10:01:00'' offline ''10:01:05'')) = False \<and>
   conversations (run sixth_typed
     (handleSubmit None sixth_typed ''10:01:00'' offline ''10:01:05''))
     = conversations five_unanswered
       @ [\<lparr>msg_type = ''user'', msg_content = Str ''q6'', msg_timestamp = ''10:01:00''\<rparr>] \<and>
   user_turns (run sixth_typed
     (handleSubmit None sixth_typed ''10:01:00'' offline ''10:01:05'')) = 6 \<and>
   assistant_turns (run sixth_typed
     (handleSubmit None sixth_typed ''10:01:00'' offline ''10:01:05'')) = 0 \<and>
   error (run sixth_typed
     (handleSubmit None sixth_typed ''10:01:00'' offline ''10:01:05''))
     = Some (Val fallback_message)"
proof -
  have n: "length (conversations sixth_typed) < 10"
    by (simp add: sixth_typed_def five_unanswered_def)
  have off: "offline (chat_request None sixth_typed) = Rejected None"
    by (simp add: offline_def)
  have msg: "errorMessage None = Some (Val fallback_message)"
    by (simp add: errorMessage_def response_data_def opt_get_def)
  have typed: "message sixth_typed = ''q6''"
    and same: "conversations sixth_typed = conversations five_unanswered"
    by (simp_all add: sixth_typed_def)
  have before: "user_turns sixth_typed = 5" "assistant_turns sixth_typed = 0"
    by (simp_all add: user_turns_def assistant_turns_def sixth_typed_def five_unanswered_def
        question_def)
  from n off msg typed same before
    failed_submission[OF n, of None "''10:01:00''" offline "''10:01:05''"]
  show ?thesis by simp
qed

subsection \<open>The message of a failure\<close>

text \<open>
  C4, as stated, sends a body with \<^verbatim>\<open>details\<close> and no \<^verbatim>\<open>error\<close> to the generic
  message. The handler tests \<^verbatim>\<open>details\<close> first, so that body is shown as a title with
  nothing in it, followed by the details.
\<close>

theorem details_without_error:
  "errorMessage (Some (Obj [(''details'', Str ''Try again in 60s'')]))
     = Some (Plain ''div''
         [Plain ''strong'' [Val Undefined], Plain ''br'' [], Text ''Try again in 60s'']) \<and>
   errorMessage (Some (Obj [(''details'', Str ''Try again in 60s'')]))
     \<noteq> Some (Val fallback_message)"
  by (simp add: errorMessage_def response_data_def opt_get_def getprop_def)

text \<open>
  C4, amended: when the body of the failure has a truthy \<^verbatim>\<open>details\<close> (a non-empty
  string, say), the message is the element holding \<^verbatim>\<open>error\<close>, whatever it is, as the
  title and \<^verbatim>\<open>details\<close> below it, both as they came; otherwise, when \<^verbatim>\<open>error\<close> is
  truthy, the message is \<^verbatim>\<open>error\<close> alone; otherwise, and always when there is no
  response or no body, it is the generic message. Building it never throws.
\<close>

theorem errorMessage_mapping:
  "errorMessage r =
     Some (if truthy (opt_get (response_data r) ''details'')
           then Plain ''div''
                  [Plain ''strong'' [Val (opt_get (response_data r) ''error'')],
                   Plain ''br'' [],
                   Val (opt_get (response_data r) ''details'')]
           else if truthy (opt_get (response_data r) ''error'')
           then Val (opt_get (response_data r) ''error'')
           else Val fallback_message)"
  by (cases r) (auto simp: errorMessage_def getprop_def opt_get_def response_data_def)

theorem errorMessage_mapping_witness:
  "errorMessage (Some (Obj [(''error'', Str ''RateLimited''), (''details'', Str ''Try again in 60s'')]))
     = Some (Plain ''div''
         [Plain ''strong'' [Text ''RateLimited''], Plain ''br'' [], Text ''Try again in 60s'']) \<and>
   errorMessage (Some (Obj [(''error'', Str ''RateLimited'')])) = Some (Text ''RateLimited'') \<and>
   errorMessage (Some (Str [])) = Some (Val fallback_message) \<and>
   errorMessage None = Some (Val fallback_message)"
  using
    errorMessage_mapping[of "Some (Obj [(''error'', Str ''RateLimited''),
                                        (''details'', Str ''Try again in 60s'')])"]
    errorMessage_mapping[of "Some (Obj [(''error'', Str ''RateLimited'')])"]
    errorMessage_mapping[of "Some (Str [])"]
    errorMessage_mapping[of None]
  by (simp add: opt_get_def response_data_def)

subsection \<open>The card of a document\<close>

text \<open>
  C5, as stated, covers every document that has the discriminant. The first line of
  \<^verbatim>\<open>renderWeatherData\<close> tests \<^verbatim>\<open>!content.query_type\<close>, so a document that has the
  field with the empty string in it is serialized: no header, no summary, no element
  at all, where the claim has the card with header and summary and no block.
\<close>

theorem blank_discriminant_serialized:
  "\<not> lacks_query_type blank_discriminant \<and>
   property blank_discriminant ''query_type'' = Str [] \<and>
   card_parts blank_discriminant
     = [location_info blank_discriminant, summary_section blank_discriminant] \<and>
   renderWeatherData blank_discriminant = Some (JSON_stringify blank_discriminant) \<and>
   renderWeatherData blank_discriminant
     \<noteq> Some (El ''div'' ''weather-analysis''
          [location_info blank_discriminant, summary_section blank_discriminant,
           Val (Bool False), Val (Bool False), Val (Bool False), Val (Bool False), Val Null])"
  by (simp add: blank_discriminant_def renderWeatherData_def getprop_def card_parts_def
      select_block_def)

text \<open>
  C5, amended: for every document whose \<^verbatim>\<open>query_type\<close> is truthy (a non-empty string,
  say), the card that is rendered is one element whose children are the location
  header, the summary and five more, of which the page shows, in this order: the one
  block that the discriminants select (hourly and daily for a forecast with that time
  frame, marine, air quality; none for any other combination), and the recommendations
  block exactly when \<^verbatim>\<open>recommendations\<close> is a non-empty array. Each block is its
  title and the fields of its payload, one card for each item of a sequence in the
  order given. A document of the data model is rendered without an exception.
\<close>

theorem render_card:
  "(well_formed content \<longrightarrow> renderWeatherData content \<noteq> None) \<and>
   (truthy (opt_get content ''query_type'') \<and> renderWeatherData content = Some out \<longrightarrow>
     (\<exists>rest.
        out = El ''div'' ''weather-analysis''
                (location_info content # summary_section content # rest) \<and>
        length rest = 5 \<and>
        map Some (shown rest) =
          (case select_block (property content ''query_type'') (property content ''time_frame'') of
             None \<Rightarrow> [] | Some b \<Rightarrow> [render_block b content])
          @ (if nonempty_sequence (property content ''recommendations'')
             then [renderRecommendations content] else []) \<and>
        location_info content # summary_section content # shown rest = card_parts content))"
  using render_total[of content] render_parts[of content out] by blast

theorem render_card_witness:
  "well_formed lagos \<and> truthy (opt_get lagos ''query_type'') \<and>
   renderWeatherData lagos = Some lagos_card \<and>
   select_block (property lagos ''query_type'') (property lagos ''time_frame'') = Some Daily \<and>
   nonempty_sequence (property lagos ''recommendations'') \<and>
   (\<exists>rest.
      lagos_card = El ''div'' ''weather-analysis''
                     (location_info lagos # summary_section lagos # rest) \<and>
      length rest = 5 \<and>
      map Some (shown rest) = [renderDailyForecast lagos, renderRecommendations lagos] \<and>
      location_info lagos # summary_section lagos # shown rest = card_parts lagos) \<and>
   renderWeatherData noon =
     Some (El ''div'' ''weather-analysis''
       [location_info noon, summary_section noon, noon_block,
        Val (Bool False), Val (Bool False), Val (Bool False), Val Null]) \<and>
   renderWeatherData harbour =
     Some (El ''div'' ''weather-analysis''
       [location_info harbour, summary_section harbour, Val (Bool False), Val (Bool False),
        harbour_block, Val (Bool False), Val Null]) \<and>
   renderWeatherData smog =
     Some (El ''div'' ''weather-analysis''
       [location_info smog, summary_section smog, Val (Bool False), Val (Bool False),
        Val (Bool False), smog_block, Val Null]) \<and>
   renderWeatherData pollen =
     Some (El ''div'' ''weather-analysis''
       [location_info pollen, summary_section pollen, Val (Bool False), Val (Bool False),
        Val (Bool False), Val (Bool False), Val Null])"
proof -
  have wf: "well_formed lagos"
    by (simp add: well_formed_def lagos_def opt_get_def select_block_def sequence_def)
  have q: "truthy (opt_get lagos ''query_type'')"
    by (simp add: lagos_def opt_get_def)
  have sel: "select_block (property lagos ''query_type'') (property lagos ''time_frame'') = Some Daily"
    by (simp add: lagos_def select_block_def)
  have recs: "nonempty_sequence (property lagos ''recommendations'')"
    by (simp add: lagos_def)
  from render_card[of lagos lagos_card] wf q sel recs render_lagos
  have "\<exists>rest.
      lagos_card = El ''div'' ''weather-analysis''
                     (location_info lagos # summary_section lagos # rest) \<and>
      length rest = 5 \<and>
      map Some (shown rest) = [renderDailyForecast lagos, renderRecommendations lagos] \<and>
      location_info lagos # summary_section lagos # shown rest = card_parts lagos"
    by simp
  with wf q sel recs render_lagos render_noon render_harbour render_smog render_pollen
  show ?thesis by blast
qed

subsection \<open>An input without a discriminant\<close>

text \<open>
  C6: an input that lacks \<^verbatim>\<open>query_type\<close> is to be serialized whole. The response body
  \<^verbatim>\<open>null\<close> lacks it, and \<^verbatim>\<open>renderWeatherData\<close> reads \<^verbatim>\<open>content.query_type\<close> of it
  without a guard: the call throws and returns nothing.
\<close>

theorem render_null_throws:
  "lacks_query_type Null \<and> renderWeatherData Null = None \<and>
   renderWeatherData Null \<noteq> Some (JSON_stringify Null)"
  by (simp add: renderWeatherData_def getprop_def)

subsection \<open>Starting over\<close>

text \<open>
  C7: the reset handler empties the turn sequence and clears the error in any state;
  the next submission then passes the limit check, posts its request, and its user turn
  is the only turn of the session.
\<close>

theorem reset_restores_submission:
  "conversations (run st reset) = [] \<and>
   error (run st reset) = None \<and>
   \<not> limit_reached (run st reset) \<and>
   list_ex is_post (handleSubmit env (run st reset) now net now') \<and>
   conversations (run (run st reset) (handleSubmit_sync env (run st reset) now))
     = [userMessage (run st reset) now]"
  by (simp add: reset_def run_def limit_reached_def handleSubmit_def handleSubmit_sync_def)

theorem reset_restores_submission_witness:
  "limit_reached full_session \<and>
   conversations (run full_session reset) = [] \<and>
   error (run five_unanswered reset) = None \<and>
   list_ex is_post (handleSubmit None (run full_session reset) ''10:02:00'' online ''10:02:05'')"
  using reset_restores_submission[of full_session None "''10:02:00''" online "''10:02:05''"]
    reset_restores_submission[of five_unanswered None "''10:02:00''" online "''10:02:05''"]
  by (simp add: limit_reached_def full_session_def)

subsection \<open>The error of an earlier attempt\<close>

text \<open>
  C9: a submission that passes the limit check sets the error to \<^verbatim>\<open>null\<close> before it
  appends the user turn and before it posts the request; when the handler waits for
  the network, the error is \<^verbatim>\<open>null\<close> and the in-flight flag is set, whatever error the
  session held before.
\<close>

theorem error_cleared_first:
  assumes "length (conversations st) < 10"
  shows "SetError None \<in> set (handleSubmit_sync env st now) \<and>
         \<not> list_ex (\<lambda>e. is_append e \<or> is_post e)
             (takeWhile (\<lambda>e. e \<noteq> SetError None) (handleSubmit_sync env st now)) \<and>
         list_ex is_append (handleSubmit_sync env st now) \<and>
         list_ex is_post (handleSubmit_sync env st now) \<and>
         error (run st (handleSubmit_sync env st now)) = None \<and>
         loading (run st (handleSubmit_sync env st now)) = True"
  using assms by (simp add: handleSubmit_sync_def limit_reached_def run_def)

theorem error_cleared_first_witness:
  "length (conversations five_unanswered) < 10 \<and>
   error five_unanswered = Some (Val fallback_message) \<and>
   error (run five_unanswered (handleSubmit_sync None five_unanswered ''10:01:00'')) = None \<and>
   loading (run five_unanswered (handleSubmit_sync None five_unanswered ''10:01:00'')) = True"
proof -
  have n: "length (conversations five_unanswered) < 10"
    by (simp add: five_unanswered_def)
  from n error_cleared_first[OF n, of None "''10:01:00''"]
  show ?thesis by (simp add: five_unanswered_def)
qed

subsection \<open>A falsy discriminant\<close>

text \<open>
  C10: when \<^verbatim>\<open>content.query_type\<close> reads as a value, the input is serialized whole
  exactly when that value is falsy, and the falsy values are \<^verbatim>\<open>undefined\<close> (the field
  is absent), \<^verbatim>\<open>null\<close>, \<^verbatim>\<open>false\<close>, \<^verbatim>\<open>0\<close> and the empty string. A serialized input is
  never an element.
\<close>

theorem falsy_discriminant_fallback:
  assumes "getprop content ''query_type'' = Some q"
  shows "(renderWeatherData content = Some (JSON_stringify content)) = (\<not> truthy q) \<and>
         (\<not> truthy q) = (q \<in> {Undefined, Null, Bool False, Num 0, Str []}) \<and>
         JSON_stringify content \<noteq> Elem tag cls k cs"
  using assms falsy_values[of q]
  by (auto simp: renderWeatherData_def split: bind_splits if_splits)

theorem falsy_discriminant_fallback_witness:
  "getprop untyped ''query_type'' = Some (Str []) \<and>
   renderWeatherData untyped = Some (JSON_stringify untyped) \<and>
   getprop (Obj [(''query_type'', Num 0)]) ''query_type'' = Some (Num 0) \<and>
   renderWeatherData (Obj [(''query_type'', Num 0)])
     = Some (JSON_stringify (Obj [(''query_type'', Num 0)])) \<and>
   getprop (Obj [(''query_type'', Null)]) ''query_type'' = Some Null \<and>
   renderWeatherData (Obj [(''query_type'', Null)])
     = Some (JSON_stringify (Obj [(''query_type'', Null)])) \<and>
   getprop (Str ''hello'') ''query_type'' = Some Undefined \<and>
   renderWeatherData (Str ''hello'') = Some (JSON_stringify (Str ''hello''))"
proof -
  have a: "getprop untyped ''query_type'' = Some (Str [])"
    by (simp add: untyped_def getprop_def)
  have b: "getprop (Obj [(''query_type'', Num 0)]) ''query_type'' = Some (Num 0)"
    by (simp add: getprop_def)
  have c: "getprop (Obj [(''query_type'', Null)]) ''query_type'' = Some Null"
    by (simp add: getprop_def)
  have d: "getprop (Str ''hello'') ''query_type'' = Some Undefined"
    by (simp add: getprop_def)
  from a b c d falsy_discriminant_fallback[OF a] falsy_discriminant_fallback[OF b]
    falsy_discriminant_fallback[OF c] falsy_discriminant_fallback[OF d]
  show ?thesis by simp
qed


end
